theory Spec2Isabelle
  imports Complex_Main "HOL-Library.Word"
begin

unbundle bit_operations_syntax

section \<open>Data model\<close>

text \<open>
  The development embeds the order-management and connection part of the class \<open>IB\<close> of
  \<^verbatim>\<open>ib_async/ib.py\<close>. Python objects that are shared and mutated in place (orders and
  trades) live in an explicit store and are passed by reference; a function that raises
  returns \<open>Inl\<close> of the exception together with the state reached when it was raised.

  Floating point values (quantities and prices) are only copied by the functions below,
  never computed with; they are carried as \<open>real\<close>.
\<close>

type_synonym order_ref = nat
type_synonym trade_ref = nat

text \<open>
  Modelled from the spec: a \<open>Contract\<close> is an instrument descriptor (symbol, security type,
  exchange, currency); the class itself is in \<^verbatim>\<open>ib_async/contract.py\<close>.
\<close>

record Contract =
  symbol :: string
  secType :: string
  exchange :: string
  currency :: string

text \<open>
  Modelled from the spec: the class \<open>Order\<close> of \<^verbatim>\<open>ib_async/order.py\<close>, with the fields
  that \<^verbatim>\<open>ib.py\<close> reads or writes. An unset price is \<open>None\<close>.
\<close>

record Order =
  orderId :: int
  clientId :: int
  permId :: int
  action :: string
  totalQuantity :: real
  orderType :: string
  lmtPrice :: "real option"
  auxPrice :: "real option"
  transmit :: bool
  parentId :: int
  ocaGroup :: string
  ocaType :: int

text \<open>
  Modelled from the spec: \<open>OrderStatus\<close>, \<open>TradeLogEntry\<close>, \<open>Fill\<close> and \<open>Trade\<close> of
  \<^verbatim>\<open>ib_async/order.py\<close> and \<^verbatim>\<open>ib_async/objects.py\<close>. A status is a Python
  string. A log entry carries a timestamp, the resulting status and a free-text note
  (empty by default). A Trade is (contract, order, orderStatus, fills, log); its order is
  a reference to the caller's Order object.
\<close>

record OrderStatus =
  status_orderId :: int
  status :: string

record TradeLogEntry =
  time :: int
  entry_status :: string
  message :: string

record Fill =
  execution :: string
  commissionReport :: string

record Trade =
  contract :: Contract
  order :: order_ref
  orderStatus :: OrderStatus
  fills :: "Fill list"
  tradeLog :: "TradeLogEntry list"

definition PendingSubmit :: string where "PendingSubmit = ''PendingSubmit''"
definition PendingCancel :: string where "PendingCancel = ''PendingCancel''"
definition Cancelled :: string where "Cancelled = ''Cancelled''"
definition Inactive :: string where "Inactive = ''Inactive''"
definition Filled :: string where "Filled = ''Filled''"
definition ApiCancelled :: string where "ApiCancelled = ''ApiCancelled''"

text \<open>
  Modelled from the spec: \<open>Trade.isDone\<close>; a trade is terminal when its status is one of
  the Done states. The set \<open>OrderStatus.DoneStates\<close> is not in \<^verbatim>\<open>ib.py\<close>; it is a
  parameter of every function that consults it.
\<close>

definition isDone :: "string set \<Rightarrow> Trade \<Rightarrow> bool" where
  "isDone DoneStates trade = (status (orderStatus trade) \<in> DoneStates)"

text \<open>
  Modelled from the spec: \<open>PnL\<close> and \<open>PnLSingle\<close> of \<^verbatim>\<open>ib_async/objects.py\<close>, keyed by
  (account, modelCode) and (account, modelCode, conId). Their profit-and-loss figures are
  written by the decoder only and are left out.
\<close>

record PnL =
  account :: string
  modelCode :: string

record PnLSingle =
  single_account :: string
  single_modelCode :: string
  conId :: int

subsection \<open>Transport, notifications and session state\<close>

text \<open>The requests that \<^verbatim>\<open>ib.py\<close> hands to \<open>self.client\<close>, in the order they are sent.\<close>

datatype wire_msg =
    PlaceOrderMsg int Contract Order
  | CancelOrderMsg int string
  | ReqPnLMsg int string string
  | ReqPnLSingleMsg int string string int
  | ReqAutoOpenOrdersMsg bool
  | ReqPositionsMsg
  | ReqOpenOrdersMsg
  | ReqCompletedOrdersMsg bool
  | ReqAccountUpdatesMsg bool string
  | ReqExecutionsMsg int

text \<open>
  The emissions on the events of the \<open>IB\<close> object (\<open>self.xEvent.emit\<close>) and on the events
  of one Trade (\<open>trade.xEvent.emit\<close>), in the order they are emitted.
\<close>

datatype event =
    connectedEvent
  | disconnectedEvent
  | newOrderEvent trade_ref
  | orderModifyEvent trade_ref
  | cancelOrderEvent trade_ref
  | orderStatusEvent trade_ref
  | trade_modifyEvent trade_ref
  | trade_cancelEvent trade_ref
  | trade_statusEvent trade_ref
  | trade_cancelledEvent trade_ref

text \<open>What \<open>self._logger.error\<close> is called with.\<close>

datatype log_record =
    ErrorMsg string
  | UnknownOrderId int

datatype error =
    AssertionError
  | ConnectionError_sync "string list"
  | ConnectionError_broken
  | ConnectFailed
  | RequestFailed

text \<open>
  Modelled from the spec: the Transport (\<open>Client\<close> of \<^verbatim>\<open>ib_async/client.py\<close>) reports
  whether it is connected and ready, issues request ids that increase by one, and has one
  send method per request type; \<open>sent\<close> records what was handed to it.
\<close>

record Client =
  connected :: bool
  ready :: bool
  reqIdSeq :: int
  sent :: "wire_msg list"

text \<open>
  Modelled from the spec: the per-connection state kept by \<open>Wrapper\<close> of
  \<^verbatim>\<open>ib_async/wrapper.py\<close>, with the collections that the functions below use.
  The type \<open>'k\<close> is the type of Trade keys.
\<close>

record 'k Wrapper =
  wrapper_clientId :: int
  trades :: "'k \<rightharpoonup> trade_ref"
  pnlKey2ReqId :: "(string \<times> string) \<rightharpoonup> int"
  reqId2PnL :: "int \<rightharpoonup> PnL"
  pnlSingleKey2ReqId :: "(string \<times> string \<times> int) \<rightharpoonup> int"
  reqId2PnlSingle :: "int \<rightharpoonup> PnLSingle"

record 'k IB =
  client :: Client
  wrapper :: "'k Wrapper"
  MaxSyncedSubAccounts :: int
  orderObjs :: "order_ref \<Rightarrow> Order"
  tradeObjs :: "trade_ref \<Rightarrow> Trade"
  nextTrade :: trade_ref
  emitted :: "event list"
  logged :: "log_record list"

definition getReqId :: "'k IB \<Rightarrow> int \<times> 'k IB" where
  "getReqId s =
     (reqIdSeq (client s), s\<lparr>client := (client s)\<lparr>reqIdSeq := reqIdSeq (client s) + 1\<rparr>\<rparr>)"

definition send :: "wire_msg \<Rightarrow> 'k IB \<Rightarrow> 'k IB" where
  "send m s = s\<lparr>client := (client s)\<lparr>sent := sent (client s) @ [m]\<rparr>\<rparr>"

definition emit :: "event \<Rightarrow> 'k IB \<Rightarrow> 'k IB" where
  "emit e s = s\<lparr>emitted := emitted s @ [e]\<rparr>"

definition logger_error :: "log_record \<Rightarrow> 'k IB \<Rightarrow> 'k IB" where
  "logger_error m s = s\<lparr>logged := logged s @ [m]\<rparr>"

section \<open>Order lifecycle\<close>

text \<open>
  \<open>IB.placeOrder\<close>. The key derivation \<open>Wrapper.orderKey\<close> is not in \<^verbatim>\<open>ib.py\<close> and is
  the parameter \<open>orderKey\<close>; \<open>now\<close> is the value of \<open>datetime.datetime.now\<close>. The order
  is sent before the trades map is consulted, and a request id is taken when the order has
  none. Info-level logging is left out.
\<close>

definition placeOrder ::
  "(int \<Rightarrow> int \<Rightarrow> int \<Rightarrow> 'k) \<Rightarrow> string set \<Rightarrow> int \<Rightarrow> Contract \<Rightarrow> order_ref \<Rightarrow> 'k IB
     \<Rightarrow> (error + trade_ref) \<times> 'k IB" where
  "placeOrder orderKey DoneStates now c ord s =
     (let (oid, s1) = (if orderId (orderObjs s ord) \<noteq> 0 then (orderId (orderObjs s ord), s)
                       else getReqId s);
          s2 = send (PlaceOrderMsg oid c (orderObjs s1 ord)) s1;
          key = orderKey (wrapper_clientId (wrapper s2)) oid (permId (orderObjs s2 ord))
      in case trades (wrapper s2) key of
           Some t \<Rightarrow>
             (let trade = tradeObjs s2 t in
              if status (orderStatus trade) \<in> DoneStates then (Inl AssertionError, s2)
              else
                (let logEntry = \<lparr>time = now, entry_status = status (orderStatus trade),
                                 message = ''Modify''\<rparr>;
                     s3 = s2\<lparr>tradeObjs := (tradeObjs s2)
                               (t := trade\<lparr>tradeLog := tradeLog trade @ [logEntry]\<rparr>)\<rparr>;
                     s4 = emit (trade_modifyEvent t) s3;
                     s5 = emit (orderModifyEvent t) s4
                 in (Inr t, s5)))
         | None \<Rightarrow>
             (let s3 = s2\<lparr>orderObjs := (orderObjs s2)
                          (ord := (orderObjs s2 ord)\<lparr>orderId := oid,
                                     clientId := wrapper_clientId (wrapper s2)\<rparr>)\<rparr>;
                  newStatus = \<lparr>status_orderId = oid, status = PendingSubmit\<rparr>;
                  logEntry = \<lparr>time = now, entry_status = status newStatus, message = ''''\<rparr>;
                  t = nextTrade s3;
                  s4 = s3\<lparr>tradeObjs := (tradeObjs s3)
                            (t := \<lparr>contract = c, order = ord, orderStatus = newStatus,
                                   fills = [], tradeLog = [logEntry]\<rparr>),
                          nextTrade := t + 1\<rparr>;
                  s5 = s4\<lparr>wrapper := (wrapper s4)\<lparr>trades := (trades (wrapper s4))(key \<mapsto> t)\<rparr>\<rparr>;
                  s6 = emit (newOrderEvent t) s5
              in (Inr t, s6)))"

text \<open>
  \<open>IB.cancelOrder\<close>. The cancel request is sent first; the key is derived from the
  order's own clientId. The condition of the source,
  \<^verbatim>\<open>status == PendingSubmit and not order.transmit or status == Inactive\<close>,
  reads the transmit flag of the order passed in.
\<close>

definition cancelOrder ::
  "(int \<Rightarrow> int \<Rightarrow> int \<Rightarrow> 'k) \<Rightarrow> string set \<Rightarrow> int \<Rightarrow> order_ref \<Rightarrow> string \<Rightarrow> 'k IB
     \<Rightarrow> trade_ref option \<times> 'k IB" where
  "cancelOrder orderKey DoneStates now ord manualCancelOrderTime s =
     (let s1 = send (CancelOrderMsg (orderId (orderObjs s ord)) manualCancelOrderTime) s;
          key = orderKey (clientId (orderObjs s1 ord)) (orderId (orderObjs s1 ord))
                  (permId (orderObjs s1 ord))
      in case trades (wrapper s1) key of
           Some t \<Rightarrow>
             (let trade = tradeObjs s1 t in
              if \<not> isDone DoneStates trade then
                (let st = status (orderStatus trade);
                     newStatus = (if st = PendingSubmit \<and> \<not> transmit (orderObjs s1 ord)
                                     \<or> st = Inactive
                                  then Cancelled else PendingCancel);
                     logEntry = \<lparr>time = now, entry_status = newStatus, message = ''''\<rparr>;
                     s2 = s1\<lparr>tradeObjs := (tradeObjs s1)
                               (t := trade\<lparr>tradeLog := tradeLog trade @ [logEntry],
                                       orderStatus := (orderStatus trade)\<lparr>status := newStatus\<rparr>\<rparr>)\<rparr>;
                     s3 = emit (trade_cancelEvent t) s2;
                     s4 = emit (trade_statusEvent t) s3;
                     s5 = emit (cancelOrderEvent t) s4;
                     s6 = emit (orderStatusEvent t) s5;
                     s7 = (if newStatus = Cancelled then emit (trade_cancelledEvent t) s6 else s6)
                 in (Some t, s7))
              else (Some t, s1))
         | None \<Rightarrow> (None, logger_error (UnknownOrderId (orderId (orderObjs s1 ord))) s1))"

text \<open>
  The key under which \<open>placeOrder\<close> looks the order up: the order's own id or, when that
  is 0, the request id it takes from the client.
\<close>

definition placeOrder_key :: "(int \<Rightarrow> int \<Rightarrow> int \<Rightarrow> 'k) \<Rightarrow> 'k IB \<Rightarrow> order_ref \<Rightarrow> 'k" where
  "placeOrder_key orderKey s ord =
     orderKey (wrapper_clientId (wrapper s))
       (if orderId (orderObjs s ord) \<noteq> 0 then orderId (orderObjs s ord)
        else reqIdSeq (client s))
       (permId (orderObjs s ord))"

subsection \<open>Composite orders\<close>

text \<open>
  Modelled from the spec: the constructors \<open>LimitOrder\<close> and \<open>StopOrder\<close> of
  \<^verbatim>\<open>ib_async/order.py\<close> build an entry or profit-taking limit order and a stop-loss
  order. The keyword arguments of a call (\<^verbatim>\<open>orderId=..., transmit=...\<close>) are the
  field updates \<open>kw\<close>; a field that is not given keeps \<open>Order_default\<close>.
\<close>

definition Order_default :: Order where
  "Order_default =
     \<lparr>orderId = 0, clientId = 0, permId = 0, action = '''', totalQuantity = 0,
      orderType = '''', lmtPrice = None, auxPrice = None, transmit = True, parentId = 0,
      ocaGroup = '''', ocaType = 0\<rparr>"

definition LimitOrder :: "string \<Rightarrow> real \<Rightarrow> real \<Rightarrow> (Order \<Rightarrow> Order) \<Rightarrow> Order" where
  "LimitOrder act qty price kw =
     (kw Order_default)\<lparr>orderType := ''LMT'', action := act, totalQuantity := qty,
                        lmtPrice := Some price\<rparr>"

definition StopOrder :: "string \<Rightarrow> real \<Rightarrow> real \<Rightarrow> (Order \<Rightarrow> Order) \<Rightarrow> Order" where
  "StopOrder act qty stopPrice kw =
     (kw Order_default)\<lparr>orderType := ''STP'', action := act, totalQuantity := qty,
                        auxPrice := Some stopPrice\<rparr>"

record BracketOrder =
  parent :: Order
  takeProfit :: Order
  stopLoss :: Order

text \<open>
  \<open>IB.bracketOrder\<close>, called without extra keyword arguments. The three orders are new
  objects and are returned by value; each takes its id from the client.
\<close>

definition bracketOrder ::
  "string \<Rightarrow> real \<Rightarrow> real \<Rightarrow> real \<Rightarrow> real \<Rightarrow> 'k IB \<Rightarrow> (error + BracketOrder) \<times> 'k IB" where
  "bracketOrder act quantity limitPrice takeProfitPrice stopLossPrice s =
     (if act \<noteq> ''BUY'' \<and> act \<noteq> ''SELL'' then (Inl AssertionError, s)
      else
        (let reverseAction = (if act = ''SELL'' then ''BUY'' else ''SELL'');
             (id1, s1) = getReqId s;
             p = LimitOrder act quantity limitPrice
                   (\<lambda>x. x\<lparr>orderId := id1, transmit := False\<rparr>);
             (id2, s2) = getReqId s1;
             tp = LimitOrder reverseAction quantity takeProfitPrice
                    (\<lambda>x. x\<lparr>orderId := id2, transmit := False, parentId := orderId p\<rparr>);
             (id3, s3) = getReqId s2;
             sl = StopOrder reverseAction quantity stopLossPrice
                    (\<lambda>x. x\<lparr>orderId := id3, transmit := True, parentId := orderId p\<rparr>)
         in (Inr \<lparr>parent = p, takeProfit = tp, stopLoss = sl\<rparr>, s3)))"

text \<open>
  \<open>IB.oneCancelsAll\<close>, a static method: the loop writes two fields of every order of
  the list, in place, and the list itself is returned.
\<close>

primrec oneCancelsAll_loop ::
  "order_ref list \<Rightarrow> string \<Rightarrow> int \<Rightarrow> (order_ref \<Rightarrow> Order) \<Rightarrow> (order_ref \<Rightarrow> Order)" where
  "oneCancelsAll_loop [] grp typ objs = objs"
| "oneCancelsAll_loop (x # xs) grp typ objs =
     oneCancelsAll_loop xs grp typ (objs(x := (objs x)\<lparr>ocaGroup := grp, ocaType := typ\<rparr>))"

definition oneCancelsAll ::
  "order_ref list \<Rightarrow> string \<Rightarrow> int \<Rightarrow> 'k IB \<Rightarrow> order_ref list \<times> 'k IB" where
  "oneCancelsAll orders grp typ s =
     (orders, s\<lparr>orderObjs := oneCancelsAll_loop orders grp typ (orderObjs s)\<rparr>)"

section \<open>Keyed profit-and-loss subscriptions\<close>

text \<open>\<open>IB.reqPnL\<close> and \<open>IB.reqPnLSingle\<close>: the assertion comes before any effect.\<close>

definition reqPnL :: "string \<Rightarrow> string \<Rightarrow> 'k IB \<Rightarrow> (error + PnL) \<times> 'k IB" where
  "reqPnL acct mc s =
     (let key = (acct, mc) in
      case pnlKey2ReqId (wrapper s) key of
        Some _ \<Rightarrow> (Inl AssertionError, s)
      | None \<Rightarrow>
          (let (reqId, s1) = getReqId s;
               s2 = s1\<lparr>wrapper := (wrapper s1)
                         \<lparr>pnlKey2ReqId := (pnlKey2ReqId (wrapper s1))(key \<mapsto> reqId)\<rparr>\<rparr>;
               pnl = \<lparr>account = acct, modelCode = mc\<rparr>;
               s3 = s2\<lparr>wrapper := (wrapper s2)
                         \<lparr>reqId2PnL := (reqId2PnL (wrapper s2))(reqId \<mapsto> pnl)\<rparr>\<rparr>;
               s4 = send (ReqPnLMsg reqId acct mc) s3
           in (Inr pnl, s4)))"

definition reqPnLSingle ::
  "string \<Rightarrow> string \<Rightarrow> int \<Rightarrow> 'k IB \<Rightarrow> (error + PnLSingle) \<times> 'k IB" where
  "reqPnLSingle acct mc cid s =
     (let key = (acct, mc, cid) in
      case pnlSingleKey2ReqId (wrapper s) key of
        Some _ \<Rightarrow> (Inl AssertionError, s)
      | None \<Rightarrow>
          (let (reqId, s1) = getReqId s;
               s2 = s1\<lparr>wrapper := (wrapper s1)
                         \<lparr>pnlSingleKey2ReqId := (pnlSingleKey2ReqId (wrapper s1))(key \<mapsto> reqId)\<rparr>\<rparr>;
               pnlSingle = \<lparr>single_account = acct, single_modelCode = mc, conId = cid\<rparr>;
               s3 = s2\<lparr>wrapper := (wrapper s2)
                         \<lparr>reqId2PnlSingle := (reqId2PnlSingle (wrapper s2))(reqId \<mapsto> pnlSingle)\<rparr>\<rparr>;
               s4 = send (ReqPnLSingleMsg reqId acct mc cid) s3
           in (Inr pnlSingle, s4)))"

section \<open>Connection\<close>

text \<open>
  Modelled from the spec: \<open>Wrapper.reset\<close> clears all per-connection state (no client id,
  empty collections), and the Transport's \<open>disconnect\<close> leaves the client neither
  connected nor ready.
\<close>

definition Wrapper_reset :: "'k Wrapper" where
  "Wrapper_reset =
     \<lparr>wrapper_clientId = - 1, trades = Map.empty, pnlKey2ReqId = Map.empty,
      reqId2PnL = Map.empty, pnlSingleKey2ReqId = Map.empty, reqId2PnlSingle = Map.empty\<rparr>"

definition client_disconnect :: "'k IB \<Rightarrow> 'k IB" where
  "client_disconnect s = s\<lparr>client := (client s)\<lparr>connected := False, ready := False\<rparr>\<rparr>"

text \<open>
  \<open>IB.disconnect\<close>. The status line is formatted from the client's host, port and
  connection statistics with \<open>util.formatSI\<close>, none of which are in \<^verbatim>\<open>ib.py\<close>; the
  formatting is the parameter \<open>statusOf\<close>, read before the connection is torn down.
\<close>

definition disconnect :: "(Client \<Rightarrow> string) \<Rightarrow> 'k IB \<Rightarrow> string option \<times> 'k IB" where
  "disconnect statusOf s =
     (if \<not> connected (client s) then (None, s)
      else
        (let st = statusOf (client s);
             s1 = client_disconnect s;
             s2 = emit disconnectedEvent s1;
             s3 = s2\<lparr>wrapper := Wrapper_reset\<rparr>
         in (Some st, s3)))"

subsection \<open>Startup synchronisation\<close>

text \<open>
  The class \<open>StartupFetch\<close> is a \<open>Flag\<close> whose members take the values of \<open>auto()\<close>; a
  combination is the bitwise or of its members and a test \<^verbatim>\<open>fetchFields & member\<close> is
  true when the conjunction is not zero.
\<close>

type_synonym StartupFetch = nat

definition POSITIONS :: StartupFetch where "POSITIONS = 1"
definition ORDERS_OPEN :: StartupFetch where "ORDERS_OPEN = 2"
definition ORDERS_COMPLETE :: StartupFetch where "ORDERS_COMPLETE = 4"
definition ACCOUNT_UPDATES :: StartupFetch where "ACCOUNT_UPDATES = 8"
definition SUB_ACCOUNT_UPDATES :: StartupFetch where "SUB_ACCOUNT_UPDATES = 16"
definition EXECUTIONS :: StartupFetch where "EXECUTIONS = 32"

definition StartupFetchNONE :: StartupFetch where "StartupFetchNONE = 0"

definition StartupFetchALL :: StartupFetch where
  "StartupFetchALL =
     POSITIONS OR ORDERS_OPEN OR ORDERS_COMPLETE OR ACCOUNT_UPDATES OR SUB_ACCOUNT_UPDATES
       OR EXECUTIONS"

text \<open>
  What the world outside \<^verbatim>\<open>ib.py\<close> decides during one \<open>connectAsync\<close>: whether the
  client's own \<open>connectAsync\<close> returns or raises, what \<open>getAccounts\<close> and
  \<open>serverVersion\<close> answer, how each awaited request ends under \<open>asyncio.wait_for\<close>
  (it returns, it exceeds the deadline, or it raises another exception), and whether the
  socket is still up when the synchronisation steps are over.
\<close>

datatype outcome = Returned | TimedOut | Raised

record Env =
  connectOk :: bool
  getAccounts :: "string list"
  serverVersion :: int
  startup :: "string \<Rightarrow> outcome"
  accountSync :: "string \<Rightarrow> outcome"
  executions :: outcome
  aliveAtEnd :: bool

text \<open>
  Modelled from the spec: the Transport's \<open>connect\<close> either fails, leaving the client as
  it was, or gives a connected and ready session.
\<close>

definition client_connectAsync :: "Env \<Rightarrow> 'k IB \<Rightarrow> (error + unit) \<times> 'k IB" where
  "client_connectAsync env s =
     (if connectOk env
      then (Inr (), s\<lparr>client := (client s)\<lparr>connected := True, ready := True\<rparr>\<rparr>)
      else (Inl ConnectFailed, s))"

text \<open>
  Modelled from the spec: when the Transport loses the socket of a ready session, the
  client is neither connected nor ready any more, the end of the connection is notified
  on \<open>client.apiEnd\<close>, which \<open>IB.__init__\<close> wires to \<open>disconnectedEvent\<close>, and the
  per-connection state of the wrapper is cleared.
\<close>

definition socket_lost :: "'k IB \<Rightarrow> 'k IB" where
  "socket_lost s = (emit disconnectedEvent (client_disconnect s))\<lparr>wrapper := Wrapper_reset\<rparr>"

text \<open>
  The session when the synchronisation steps are over: as it was, or as the loss of the
  socket in the meantime has left it.
\<close>

definition socket_state :: "Env \<Rightarrow> 'k IB \<Rightarrow> 'k IB" where
  "socket_state env s = (if aliveAtEnd env then s else socket_lost s)"

text \<open>
  The dictionary \<open>reqs\<close> of \<open>connectAsync\<close>, in insertion order: the name of each
  initial request with the message that creating it sends.
\<close>

definition startup_requests ::
  "bool \<Rightarrow> StartupFetch \<Rightarrow> int \<Rightarrow> string \<Rightarrow> (string \<times> wire_msg) list" where
  "startup_requests readonly fetchFields version acct =
     [(''positions'', ReqPositionsMsg)]
     @ (if \<not> readonly \<and> fetchFields AND ORDERS_OPEN \<noteq> 0
        then [(''open orders'', ReqOpenOrdersMsg)] else [])
     @ (if \<not> readonly \<and> 150 \<le> version \<and> fetchFields AND ORDERS_COMPLETE \<noteq> 0
        then [(''completed orders'', ReqCompletedOrdersMsg False)] else [])
     @ (if acct \<noteq> '''' \<and> fetchFields AND ACCOUNT_UPDATES \<noteq> 0
        then [(''account updates'', ReqAccountUpdatesMsg True acct)] else [])"

text \<open>The loop over the answers of \<open>asyncio.gather\<close>: one message per request that timed out.\<close>

primrec gather_errors :: "Env \<Rightarrow> string list \<Rightarrow> string list" where
  "gather_errors env [] = []"
| "gather_errors env (name # names) =
     (if startup env name = TimedOut then [name @ '' request timed out''] else [])
     @ gather_errors env names"

primrec log_errors :: "string list \<Rightarrow> 'k IB \<Rightarrow> 'k IB" where
  "log_errors [] s = s"
| "log_errors (msg # msgs) s = log_errors msgs (logger_error (ErrorMsg msg) s)"

primrec send_all :: "wire_msg list \<Rightarrow> 'k IB \<Rightarrow> 'k IB" where
  "send_all [] s = s"
| "send_all (m # ms) s = send_all ms (send m s)"

text \<open>
  The serial loop over the accounts. Each turn sends the account-updates request and
  awaits it; a timeout adds a message and goes on, any other exception leaves the loop.
  The result is the exception raised, if any, the list \<open>errors\<close> and the state.
\<close>

primrec sync_accounts ::
  "Env \<Rightarrow> string list \<Rightarrow> string list \<Rightarrow> 'k IB \<Rightarrow> error option \<times> string list \<times> 'k IB" where
  "sync_accounts env [] errors s = (None, errors, s)"
| "sync_accounts env (acc # accs) errors s =
     (let s1 = send (ReqAccountUpdatesMsg True acc) s in
      case accountSync env acc of
        Returned \<Rightarrow> sync_accounts env accs errors s1
      | TimedOut \<Rightarrow>
          (let msg = ''reqAccountUpdatesAsync for '' @ acc @ '' timed out''
           in sync_accounts env accs (errors @ [msg]) (logger_error (ErrorMsg msg) s1))
      | Raised \<Rightarrow> (Some RequestFailed, errors, s1))"

text \<open>
  The messages that the serial loop adds to \<open>errors\<close>: one for each account whose
  download timed out, up to the first download that raises.
\<close>

primrec account_errors :: "Env \<Rightarrow> string list \<Rightarrow> string list" where
  "account_errors env [] = []"
| "account_errors env (acc # accs) =
     (case accountSync env acc of
        Returned \<Rightarrow> account_errors env accs
      | TimedOut \<Rightarrow> (''reqAccountUpdatesAsync for '' @ acc @ '' timed out'') # account_errors env accs
      | Raised \<Rightarrow> [])"

text \<open>
  The synchronisation steps of \<open>connectAsync\<close>, block by block. First the autobind
  request of client 0, the choice of the account, and the initial requests: all are sent
  when they are created, then awaited together, and each timeout is collected and logged.
\<close>

definition startup_gather ::
  "Env \<Rightarrow> int \<Rightarrow> bool \<Rightarrow> string \<Rightarrow> StartupFetch \<Rightarrow> 'k IB \<Rightarrow> string list \<times> 'k IB" where
  "startup_gather env cid readonly acct fetchFields s =
     (let s1 = (if cid = 0 then send (ReqAutoOpenOrdersMsg True) s else s);
          accounts = getAccounts env;
          acct1 = (if acct = '''' \<and> length accounts = 1 then accounts ! 0 else acct);
          reqs = startup_requests readonly fetchFields (serverVersion env) acct1;
          s2 = send_all (map snd reqs) s1;
          errors = gather_errors env (map fst reqs)
      in (errors, log_errors errors s2))"

text \<open>Then the accounts, one after the other, unless there are too many of them.\<close>

definition startup_accounts ::
  "Env \<Rightarrow> string list \<Rightarrow> 'k IB \<Rightarrow> error option \<times> string list \<times> 'k IB" where
  "startup_accounts env errors s =
     (if int (length (getAccounts env)) \<le> MaxSyncedSubAccounts s
      then sync_accounts env (getAccounts env) errors s
      else (None, errors, s))"

text \<open>Last the executions, when they are asked for.\<close>

definition startup_executions ::
  "Env \<Rightarrow> StartupFetch \<Rightarrow> string list \<Rightarrow> 'k IB \<Rightarrow> error option \<times> string list \<times> 'k IB" where
  "startup_executions env fetchFields errors s =
     (if fetchFields AND EXECUTIONS \<noteq> 0 then
        (let (reqId, s1) = getReqId s;
             s2 = send (ReqExecutionsMsg reqId) s1
         in case executions env of
              Returned \<Rightarrow> (None, errors, s2)
            | TimedOut \<Rightarrow>
                (let msg = ''executions request timed out''
                 in (None, errors @ [msg], logger_error (ErrorMsg msg) s2))
            | Raised \<Rightarrow> (Some RequestFailed, errors, s2))
      else (None, errors, s))"

definition startup_sync ::
  "Env \<Rightarrow> int \<Rightarrow> bool \<Rightarrow> string \<Rightarrow> StartupFetch \<Rightarrow> 'k IB
     \<Rightarrow> error option \<times> string list \<times> 'k IB" where
  "startup_sync env cid readonly acct fetchFields s =
     (let (errors, s1) = startup_gather env cid readonly acct fetchFields s;
          (r, errors1, s2) = startup_accounts env errors s1
      in case r of
           Some e \<Rightarrow> (Some e, errors1, s2)
         | None \<Rightarrow> startup_executions env fetchFields errors1 s2)"

text \<open>
  The body of the \<open>try\<close> statement of \<open>connectAsync\<close>, after the client id has been
  stored in the wrapper.
\<close>

definition connect_body ::
  "Env \<Rightarrow> int \<Rightarrow> bool \<Rightarrow> string \<Rightarrow> bool \<Rightarrow> StartupFetch \<Rightarrow> 'k IB \<Rightarrow> (error + unit) \<times> 'k IB" where
  "connect_body env cid readonly acct raiseSyncErrors fetchFields s =
     (case client_connectAsync env s of
        (Inl e, s1) \<Rightarrow> (Inl e, s1)
      | (Inr _, s1) \<Rightarrow>
          (let (r, errors, s2) = startup_sync env cid readonly acct fetchFields s1;
               s3 = socket_state env s2
           in case r of
                Some e \<Rightarrow> (Inl e, s3)
              | None \<Rightarrow>
                  (if raiseSyncErrors \<and> 0 < length errors
                   then (Inl (ConnectionError_sync errors), s3)
                   else if \<not> ready (client s3) then (Inl ConnectionError_broken, s3)
                   else (Inr (), emit connectedEvent s3))))"

text \<open>
  \<open>IB.connectAsync\<close>: any exception of the body is answered with \<open>self.disconnect()\<close> and
  raised again. Host, port and the deadline itself do not appear: what they decide is in
  the environment.
\<close>

definition connectAsync ::
  "(Client \<Rightarrow> string) \<Rightarrow> Env \<Rightarrow> int \<Rightarrow> bool \<Rightarrow> string \<Rightarrow> bool \<Rightarrow> StartupFetch \<Rightarrow> 'k IB
     \<Rightarrow> (error + unit) \<times> 'k IB" where
  "connectAsync statusOf env cid readonly acct raiseSyncErrors fetchFields s =
     (let s0 = s\<lparr>wrapper := (wrapper s)\<lparr>wrapper_clientId := cid\<rparr>\<rparr>
      in case connect_body env cid readonly acct raiseSyncErrors fetchFields s0 of
           (Inl e, s1) \<Rightarrow> (Inl e, snd (disconnect statusOf s1))
         | (Inr u, s1) \<Rightarrow> (Inr u, s1))"

text \<open>
  The list \<open>errors\<close> that the synchronisation steps have collected when they are over,
  for a connect call on the session \<open>s\<close> whose connection is established.
\<close>

definition sync_errors ::
  "Env \<Rightarrow> int \<Rightarrow> bool \<Rightarrow> string \<Rightarrow> StartupFetch \<Rightarrow> 'k IB \<Rightarrow> string list" where
  "sync_errors env cid readonly acct fetchFields s =
     fst (snd (startup_sync env cid readonly acct fetchFields
       (snd (client_connectAsync env (s\<lparr>wrapper := (wrapper s)\<lparr>wrapper_clientId := cid\<rparr>\<rparr>)))))"

text \<open>No awaited request of the serial steps ends with an exception other than a timeout.\<close>

definition no_request_raises :: "Env \<Rightarrow> bool" where
  "no_request_raises env =
     (Raised \<notin> accountSync env ` set (getAccounts env) \<and> executions env \<noteq> Raised)"

section \<open>Concrete sessions\<close>

text \<open>
  Modelled from the spec: the canonical Trade key derivation from (clientId, orderId,
  permId), here the three values themselves, and the Done states that the spec names.
  They instantiate the parameters \<open>orderKey\<close> and \<open>DoneStates\<close> on concrete sessions.
\<close>

definition orderKey_spec :: "int \<Rightarrow> int \<Rightarrow> int \<Rightarrow> int \<times> int \<times> int" where
  "orderKey_spec cid oid pid = (cid, oid, pid)"

definition DoneStates_spec :: "string set" where
  "DoneStates_spec = {Filled, Cancelled, ApiCancelled, Inactive}"

definition example_contract :: Contract where
  "example_contract =
     \<lparr>symbol = ''AAPL'', secType = ''STK'', exchange = ''SMART'', currency = ''USD''\<rparr>"

definition example_order :: Order where
  "example_order =
     \<lparr>orderId = 7, clientId = 1, permId = 0, action = ''BUY'', totalQuantity = 100,
      orderType = ''LMT'', lmtPrice = Some 10, auxPrice = None, transmit = False, parentId = 0,
      ocaGroup = '''', ocaType = 0\<rparr>"

definition example_trade :: "string \<Rightarrow> Trade" where
  "example_trade st =
     \<lparr>contract = example_contract, order = 0,
      orderStatus = \<lparr>status_orderId = 7, status = st\<rparr>,
      fills = [],
      tradeLog = [\<lparr>time = 1, entry_status = PendingSubmit, message = ''''\<rparr>]\<rparr>"

text \<open>
  A connected session of client 1 that holds one Trade (reference 0, status \<open>st\<close>) for
  the order 7 (reference 0), and no subscription.
\<close>

definition example_session :: "string \<Rightarrow> (int \<times> int \<times> int) IB" where
  "example_session st =
     \<lparr>client = \<lparr>connected = True, ready = True, reqIdSeq = 8, sent = []\<rparr>,
      wrapper = \<lparr>wrapper_clientId = 1, trades = [(1, 7, 0) \<mapsto> 0],
                 pnlKey2ReqId = Map.empty, reqId2PnL = Map.empty,
                 pnlSingleKey2ReqId = Map.empty, reqId2PnlSingle = Map.empty\<rparr>,
      MaxSyncedSubAccounts = 50,
      orderObjs = (\<lambda>_. example_order),
      tradeObjs = (\<lambda>_. example_trade st),
      nextTrade = 1, emitted = [], logged = []\<rparr>"

text \<open>The same session with one subscription of each kind already active.\<close>

definition example_subscribed :: "(int \<times> int \<times> int) IB" where
  "example_subscribed =
     (example_session PendingSubmit)
       \<lparr>wrapper := (wrapper (example_session PendingSubmit))
          \<lparr>pnlKey2ReqId := [(''DU1'', '''') \<mapsto> 3],
           reqId2PnL := [3 \<mapsto> \<lparr>account = ''DU1'', modelCode = ''''\<rparr>],
           pnlSingleKey2ReqId := [(''DU1'', '''', 265598) \<mapsto> 4],
           reqId2PnlSingle :=
             [4 \<mapsto> \<lparr>single_account = ''DU1'', single_modelCode = '''', conId = 265598\<rparr>]\<rparr>\<rparr>"

text \<open>An \<open>IB\<close> object that has not been connected yet.\<close>

definition example_fresh :: "(int \<times> int \<times> int) IB" where
  "example_fresh =
     \<lparr>client = \<lparr>connected = False, ready = False, reqIdSeq = 0, sent = []\<rparr>,
      wrapper = Wrapper_reset,
      MaxSyncedSubAccounts = 50,
      orderObjs = (\<lambda>_. Order_default),
      tradeObjs = (\<lambda>_. example_trade PendingSubmit),
      nextTrade = 0, emitted = [], logged = []\<rparr>"

definition example_statusOf :: "Client \<Rightarrow> string" where
  "example_statusOf c = ''Disconnecting''"

text \<open>
  A gateway with the single account DU1 where every request returns, and variations of
  it: the open-orders request exceeds its deadline; the socket is lost during the
  synchronisation; the positions request exceeds its deadline and the account download
  fails when the socket is lost; the gateway refuses the connection.
\<close>

definition example_env :: Env where
  "example_env =
     \<lparr>connectOk = True, getAccounts = [''DU1''], serverVersion = 176,
      startup = (\<lambda>_. Returned), accountSync = (\<lambda>_. Returned), executions = Returned,
      aliveAtEnd = True\<rparr>"

definition env_open_orders_late :: Env where
  "env_open_orders_late =
     example_env\<lparr>startup := (\<lambda>name. if name = ''open orders'' then TimedOut else Returned)\<rparr>"

definition env_open_orders_late_socket_lost :: Env where
  "env_open_orders_late_socket_lost = env_open_orders_late\<lparr>aliveAtEnd := False\<rparr>"

definition env_download_fails :: Env where
  "env_download_fails =
     example_env\<lparr>startup := (\<lambda>name. if name = ''positions'' then TimedOut else Returned),
                 accountSync := (\<lambda>_. Raised), aliveAtEnd := False\<rparr>"


section \<open>Verified properties\<close>

lemmas step_defs = getReqId_def send_def emit_def logger_error_def

lemmas example_defs =
  example_session_def example_subscribed_def example_fresh_def example_trade_def
  example_order_def example_contract_def orderKey_spec_def DoneStates_spec_def
  PendingSubmit_def PendingCancel_def Cancelled_def Inactive_def Filled_def ApiCancelled_def

subsection \<open>Placing and cancelling orders\<close>

text \<open>
  C1. When the trades map already holds a Trade under the key that \<open>placeOrder\<close>
  derives for the order, and that Trade's status is not a Done state, \<open>placeOrder\<close>
  returns that Trade, leaves the trades map as it was, appends exactly one log entry
  (the current status with the note Modify) to that Trade and changes no other Trade,
  leaves the fills untouched, and emits the Trade's modify event and \<open>orderModifyEvent\<close>
  and no \<open>newOrderEvent\<close>.
\<close>

theorem placeOrder_modify:
  assumes "trades (wrapper s) (placeOrder_key orderKey s ord) = Some t"
    and "status (orderStatus (tradeObjs s t)) \<notin> DoneStates"
  shows "case placeOrder orderKey DoneStates now c ord s of (r, s') \<Rightarrow>
       r = Inr t
     \<and> trades (wrapper s') = trades (wrapper s)
     \<and> tradeObjs s' = (tradeObjs s)(t := (tradeObjs s t)\<lparr>tradeLog := tradeLog (tradeObjs s t) @
           [\<lparr>time = now, entry_status = status (orderStatus (tradeObjs s t)),
             message = ''Modify''\<rparr>]\<rparr>)
     \<and> fills (tradeObjs s' t) = fills (tradeObjs s t)
     \<and> emitted s' = emitted s @ [trade_modifyEvent t, orderModifyEvent t]
     \<and> newOrderEvent t' \<notin> set (drop (length (emitted s)) (emitted s'))"
  using assms
  by (cases "orderId (orderObjs s ord) = 0")
     (simp_all add: placeOrder_def placeOrder_key_def step_defs Let_def)

theorem placeOrder_modify_witness:
  "trades (wrapper (example_session PendingSubmit))
     (placeOrder_key orderKey_spec (example_session PendingSubmit) 0) = Some 0
   \<and> status (orderStatus (tradeObjs (example_session PendingSubmit) 0)) \<notin> DoneStates_spec
   \<and> fst (placeOrder orderKey_spec DoneStates_spec 5 example_contract 0
            (example_session PendingSubmit)) = Inr 0
   \<and> tradeLog (tradeObjs (snd (placeOrder orderKey_spec DoneStates_spec 5 example_contract 0
            (example_session PendingSubmit))) 0)
       = [\<lparr>time = 1, entry_status = PendingSubmit, message = ''''\<rparr>,
          \<lparr>time = 5, entry_status = PendingSubmit, message = ''Modify''\<rparr>]
   \<and> emitted (snd (placeOrder orderKey_spec DoneStates_spec 5 example_contract 0
            (example_session PendingSubmit))) = [trade_modifyEvent 0, orderModifyEvent 0]"
proof -
  have h1: "trades (wrapper (example_session PendingSubmit))
     (placeOrder_key orderKey_spec (example_session PendingSubmit) 0) = Some 0"
    by (simp add: placeOrder_key_def example_defs)
  have h2: "status (orderStatus (tradeObjs (example_session PendingSubmit) 0)) \<notin> DoneStates_spec"
    by (simp add: example_defs)
  from placeOrder_modify [where orderKey = orderKey_spec and DoneStates = DoneStates_spec
      and s = "example_session PendingSubmit" and ord = 0 and t = 0 and now = 5
      and c = example_contract, OF h1 h2]
  show ?thesis using h1 h2 by (simp add: case_prod_unfold example_defs)
qed

text \<open>
  C2. When the key of the order matches a known Trade that is not done, \<open>cancelOrder\<close>
  returns that Trade; the new status is Cancelled if the status was PendingSubmit and
  the order's transmit flag is false, or if the status was Inactive, and PendingCancel
  otherwise; exactly one log entry with the new status is appended; the cancel and status
  events of the Trade and of the session are emitted, and the Trade's \<open>cancelledEvent\<close>
  is emitted exactly when the new status is Cancelled.
\<close>

theorem cancelOrder_active:
  assumes "trades (wrapper s) (orderKey (clientId (orderObjs s ord)) (orderId (orderObjs s ord))
            (permId (orderObjs s ord))) = Some t"
    and "\<not> isDone DoneStates (tradeObjs s t)"
  shows "case cancelOrder orderKey DoneStates now ord mt s of (r, s') \<Rightarrow>
       r = Some t
     \<and> status (orderStatus (tradeObjs s' t)) =
         (if status (orderStatus (tradeObjs s t)) = PendingSubmit \<and> \<not> transmit (orderObjs s ord)
             \<or> status (orderStatus (tradeObjs s t)) = Inactive
          then Cancelled else PendingCancel)
     \<and> tradeLog (tradeObjs s' t) = tradeLog (tradeObjs s t) @
           [\<lparr>time = now, entry_status = status (orderStatus (tradeObjs s' t)), message = ''''\<rparr>]
     \<and> emitted s' = emitted s @
           [trade_cancelEvent t, trade_statusEvent t, cancelOrderEvent t, orderStatusEvent t] @
           (if status (orderStatus (tradeObjs s' t)) = Cancelled
            then [trade_cancelledEvent t] else [])
     \<and> (trade_cancelledEvent t \<in> set (drop (length (emitted s)) (emitted s'))
          \<longleftrightarrow> status (orderStatus (tradeObjs s' t)) = Cancelled)"
  using assms
  by (simp add: cancelOrder_def step_defs Let_def Cancelled_def PendingCancel_def)

theorem cancelOrder_active_witness:
  "trades (wrapper (example_session PendingSubmit)) (orderKey_spec 1 7 0) = Some 0
   \<and> \<not> isDone DoneStates_spec (tradeObjs (example_session PendingSubmit) 0)
   \<and> fst (cancelOrder orderKey_spec DoneStates_spec 6 0 '''' (example_session PendingSubmit))
       = Some 0
   \<and> status (orderStatus (tradeObjs (snd (cancelOrder orderKey_spec DoneStates_spec 6 0 ''''
         (example_session PendingSubmit))) 0)) = Cancelled
   \<and> emitted (snd (cancelOrder orderKey_spec DoneStates_spec 6 0 ''''
         (example_session PendingSubmit)))
       = [trade_cancelEvent 0, trade_statusEvent 0, cancelOrderEvent 0, orderStatusEvent 0,
          trade_cancelledEvent 0]"
proof -
  have h1: "trades (wrapper (example_session PendingSubmit))
      (orderKey_spec (clientId (orderObjs (example_session PendingSubmit) 0))
         (orderId (orderObjs (example_session PendingSubmit) 0))
         (permId (orderObjs (example_session PendingSubmit) 0))) = Some 0"
    by (simp add: example_defs)
  have h2: "\<not> isDone DoneStates_spec (tradeObjs (example_session PendingSubmit) 0)"
    by (simp add: isDone_def example_defs)
  from cancelOrder_active [where orderKey = orderKey_spec and DoneStates = DoneStates_spec
      and s = "example_session PendingSubmit" and ord = 0 and t = 0 and now = 6
      and mt = "[]", OF h1 h2]
  show ?thesis using h1 h2 by (simp add: case_prod_unfold example_defs)
qed

text \<open>
  C3. When the key of the order matches a Trade that is already done, \<open>cancelOrder\<close>
  returns that Trade and the only change of the state is the cancel request handed to
  the client: no Trade is modified (no log entry, no status change), nothing is emitted
  and nothing is logged.
\<close>

theorem cancelOrder_done:
  assumes "trades (wrapper s) (orderKey (clientId (orderObjs s ord)) (orderId (orderObjs s ord))
            (permId (orderObjs s ord))) = Some t"
    and "isDone DoneStates (tradeObjs s t)"
  shows "case cancelOrder orderKey DoneStates now ord mt s of (r, s') \<Rightarrow>
       r = Some t
     \<and> s' = s\<lparr>client := (client s)\<lparr>sent := sent (client s) @
                [CancelOrderMsg (orderId (orderObjs s ord)) mt]\<rparr>\<rparr>
     \<and> tradeObjs s' = tradeObjs s \<and> emitted s' = emitted s \<and> logged s' = logged s
     \<and> wrapper s' = wrapper s"
  using assms
  by (simp add: cancelOrder_def step_defs Let_def)

theorem cancelOrder_done_witness:
  "trades (wrapper (example_session Filled)) (orderKey_spec 1 7 0) = Some 0
   \<and> isDone DoneStates_spec (tradeObjs (example_session Filled) 0)
   \<and> fst (cancelOrder orderKey_spec DoneStates_spec 6 0 '''' (example_session Filled)) = Some 0
   \<and> tradeObjs (snd (cancelOrder orderKey_spec DoneStates_spec 6 0 '''' (example_session Filled)))
       = tradeObjs (example_session Filled)
   \<and> emitted (snd (cancelOrder orderKey_spec DoneStates_spec 6 0 '''' (example_session Filled)))
       = []"
proof -
  have h1: "trades (wrapper (example_session Filled))
      (orderKey_spec (clientId (orderObjs (example_session Filled) 0))
         (orderId (orderObjs (example_session Filled) 0))
         (permId (orderObjs (example_session Filled) 0))) = Some 0"
    by (simp add: example_defs)
  have h2: "isDone DoneStates_spec (tradeObjs (example_session Filled) 0)"
    by (simp add: isDone_def example_defs)
  from cancelOrder_done [where orderKey = orderKey_spec and DoneStates = DoneStates_spec
      and s = "example_session Filled" and ord = 0 and t = 0 and now = 6
      and mt = "[]", OF h1 h2]
  show ?thesis using h1 h2 by (simp add: case_prod_unfold example_defs)
qed

subsection \<open>Composite orders\<close>

text \<open>
  C4. For an action that is BUY or SELL, \<open>bracketOrder\<close> returns three orders: the
  take-profit and the stop-loss order carry the entry order's id as their parent id, the
  stop-loss order has its transmit flag set, and the entry and take-profit orders have
  it cleared. The entry order's id is the next request id of the client.
\<close>

theorem bracketOrder_links:
  assumes "act \<in> {''BUY'', ''SELL''}"
  shows "case bracketOrder act quantity limitPrice takeProfitPrice stopLossPrice s of
      (r, s') \<Rightarrow>
        (case r of
           Inl e \<Rightarrow> False
         | Inr b \<Rightarrow>
             orderId (parent b) = reqIdSeq (client s)
           \<and> parentId (takeProfit b) = orderId (parent b)
           \<and> parentId (stopLoss b) = orderId (parent b)
           \<and> transmit (stopLoss b)
           \<and> \<not> transmit (parent b)
           \<and> \<not> transmit (takeProfit b))"
  using assms
  by (auto simp: bracketOrder_def LimitOrder_def StopOrder_def getReqId_def Let_def)

theorem bracketOrder_links_witness:
  "''BUY'' \<in> {''BUY'', ''SELL''}
   \<and> (case fst (bracketOrder ''BUY'' 100 10 11 9 (example_session PendingSubmit)) of
         Inl e \<Rightarrow> False
       | Inr b \<Rightarrow>
           orderId (parent b) = 8
         \<and> parentId (takeProfit b) = 8
         \<and> parentId (stopLoss b) = 8
         \<and> transmit (stopLoss b)
         \<and> \<not> transmit (parent b)
         \<and> \<not> transmit (takeProfit b))"
proof -
  have h: "''BUY'' \<in> {''BUY'', ''SELL''}" by simp
  have n: "reqIdSeq (client (example_session PendingSubmit)) = 8"
    by (simp add: example_session_def)
  from bracketOrder_links [OF h, where quantity = 100 and limitPrice = 10
      and takeProfitPrice = 11 and stopLossPrice = 9 and s = "example_session PendingSubmit"]
  show ?thesis using h n by (auto simp: case_prod_unfold split: sum.splits)
qed

text \<open>
  The loop of \<open>oneCancelsAll\<close> writes the two fields of exactly the orders of the list.
\<close>

lemma oneCancelsAll_loop_apply:
  "oneCancelsAll_loop orders grp typ objs x =
     (if x \<in> set orders then (objs x)\<lparr>ocaGroup := grp, ocaType := typ\<rparr> else objs x)"
  by (induction orders arbitrary: objs) auto

text \<open>
  C9. \<open>oneCancelsAll\<close> returns the list it was given; afterwards every order of the list
  has the given \<open>ocaGroup\<close> and \<open>ocaType\<close> and is otherwise as before, every other
  order object is as before, and nothing else of the session changes: the client (what
  was sent, the request ids), the wrapper (the trades map, the subscriptions), the Trade
  objects, the emitted events and the log.
\<close>

theorem oneCancelsAll_tags_only:
  "case oneCancelsAll orders grp typ s of
     (r, s') \<Rightarrow>
        r = orders
      \<and> orderObjs s' x =
          (if x \<in> set orders then (orderObjs s x)\<lparr>ocaGroup := grp, ocaType := typ\<rparr>
           else orderObjs s x)
      \<and> client s' = client s \<and> wrapper s' = wrapper s \<and> tradeObjs s' = tradeObjs s
      \<and> nextTrade s' = nextTrade s \<and> emitted s' = emitted s \<and> logged s' = logged s"
  by (simp add: oneCancelsAll_def oneCancelsAll_loop_apply)

subsection \<open>Profit-and-loss subscriptions\<close>

text \<open>
  C8. When the key (account, modelCode) is already in the map of active subscriptions,
  \<open>reqPnL\<close> fails with an assertion error and the state is as before. When the key is
  absent, \<open>reqPnL\<close> returns a new \<open>PnL\<close> for the key, registers the key under the next
  request id, stores the returned object under that id, and sends the request. The same
  holds for \<open>reqPnLSingle\<close> with the key (account, modelCode, conId).
\<close>

theorem reqPnL_keyed:
  "(pnlKey2ReqId (wrapper s) (acct, mc) \<noteq> None \<longrightarrow>
      reqPnL acct mc s = (Inl AssertionError, s))
   \<and> (pnlKey2ReqId (wrapper s) (acct, mc) = None \<longrightarrow>
        (case reqPnL acct mc s of (r, s') \<Rightarrow>
            r = Inr \<lparr>account = acct, modelCode = mc\<rparr>
          \<and> pnlKey2ReqId (wrapper s') =
              (pnlKey2ReqId (wrapper s))((acct, mc) \<mapsto> reqIdSeq (client s))
          \<and> reqId2PnL (wrapper s') =
              (reqId2PnL (wrapper s))(reqIdSeq (client s) \<mapsto> \<lparr>account = acct, modelCode = mc\<rparr>)
          \<and> sent (client s') = sent (client s) @ [ReqPnLMsg (reqIdSeq (client s)) acct mc]))
   \<and> (pnlSingleKey2ReqId (wrapper s) (acct, mc, cid) \<noteq> None \<longrightarrow>
        reqPnLSingle acct mc cid s = (Inl AssertionError, s))
   \<and> (pnlSingleKey2ReqId (wrapper s) (acct, mc, cid) = None \<longrightarrow>
        (case reqPnLSingle acct mc cid s of (r, s') \<Rightarrow>
            r = Inr \<lparr>single_account = acct, single_modelCode = mc, conId = cid\<rparr>
          \<and> pnlSingleKey2ReqId (wrapper s') =
              (pnlSingleKey2ReqId (wrapper s))((acct, mc, cid) \<mapsto> reqIdSeq (client s))
          \<and> reqId2PnlSingle (wrapper s') =
              (reqId2PnlSingle (wrapper s))
                (reqIdSeq (client s) \<mapsto>
                   \<lparr>single_account = acct, single_modelCode = mc, conId = cid\<rparr>)
          \<and> sent (client s') =
              sent (client s) @ [ReqPnLSingleMsg (reqIdSeq (client s)) acct mc cid]))"
  by (auto simp: reqPnL_def reqPnLSingle_def step_defs Let_def)

theorem reqPnL_keyed_witness:
  "pnlKey2ReqId (wrapper example_subscribed) (''DU1'', '''') \<noteq> None
   \<and> reqPnL ''DU1'' '''' example_subscribed = (Inl AssertionError, example_subscribed)
   \<and> pnlSingleKey2ReqId (wrapper example_subscribed) (''DU1'', '''', 265598) \<noteq> None
   \<and> reqPnLSingle ''DU1'' '''' 265598 example_subscribed
       = (Inl AssertionError, example_subscribed)
   \<and> pnlKey2ReqId (wrapper (example_session Filled)) (''DU1'', '''') = None
   \<and> fst (reqPnL ''DU1'' '''' (example_session Filled))
       = Inr \<lparr>account = ''DU1'', modelCode = ''''\<rparr>
   \<and> pnlKey2ReqId (wrapper (snd (reqPnL ''DU1'' '''' (example_session Filled))))
        (''DU1'', '''') = Some 8
   \<and> pnlSingleKey2ReqId (wrapper (example_session Filled)) (''DU1'', '''', 265598) = None
   \<and> fst (reqPnLSingle ''DU1'' '''' 265598 (example_session Filled))
       = Inr \<lparr>single_account = ''DU1'', single_modelCode = '''', conId = 265598\<rparr>
   \<and> reqId2PnlSingle (wrapper (snd (reqPnLSingle ''DU1'' '''' 265598 (example_session Filled)))) 8
       = Some \<lparr>single_account = ''DU1'', single_modelCode = '''', conId = 265598\<rparr>"
proof -
  have p1: "pnlKey2ReqId (wrapper example_subscribed) (''DU1'', '''') \<noteq> None"
    and p2: "pnlSingleKey2ReqId (wrapper example_subscribed) (''DU1'', '''', 265598) \<noteq> None"
    by (simp_all add: example_subscribed_def example_session_def)
  have a1: "pnlKey2ReqId (wrapper (example_session Filled)) (''DU1'', '''') = None"
    and a2: "pnlSingleKey2ReqId (wrapper (example_session Filled)) (''DU1'', '''', 265598) = None"
    and n: "reqIdSeq (client (example_session Filled)) = 8"
    by (simp_all add: example_session_def)
  from reqPnL_keyed [where s = example_subscribed and acct = "''DU1''" and mc = "[]"
      and cid = 265598]
    reqPnL_keyed [where s = "example_session Filled" and acct = "''DU1''" and mc = "[]"
      and cid = 265598]
  show ?thesis using p1 p2 a1 a2 n by (simp add: case_prod_unfold)
qed

subsection \<open>Disconnecting\<close>

text \<open>
  C10. When the client is not connected, \<open>disconnect\<close> returns None and the state is as
  before (no \<open>disconnectedEvent\<close>, no reset). When it is connected, \<open>disconnect\<close>
  returns the status line, the client is no longer connected or ready, exactly one
  \<open>disconnectedEvent\<close> is emitted and the wrapper holds the reset state.
\<close>

theorem disconnect_guarded:
  "(\<not> connected (client s) \<longrightarrow> disconnect statusOf s = (None, s))
   \<and> (connected (client s) \<longrightarrow>
        (case disconnect statusOf s of (r, s') \<Rightarrow>
            r = Some (statusOf (client s))
          \<and> \<not> connected (client s') \<and> \<not> ready (client s')
          \<and> emitted s' = emitted s @ [disconnectedEvent]
          \<and> wrapper s' = Wrapper_reset
          \<and> logged s' = logged s \<and> orderObjs s' = orderObjs s \<and> tradeObjs s' = tradeObjs s))"
  by (simp add: disconnect_def client_disconnect_def emit_def Let_def)

theorem disconnect_guarded_witness:
  "\<not> connected (client example_fresh)
   \<and> disconnect example_statusOf example_fresh = (None, example_fresh)
   \<and> connected (client example_subscribed)
   \<and> fst (disconnect example_statusOf example_subscribed) = Some ''Disconnecting''
   \<and> emitted (snd (disconnect example_statusOf example_subscribed)) = [disconnectedEvent]
   \<and> trades (wrapper (snd (disconnect example_statusOf example_subscribed))) = Map.empty
   \<and> trades (wrapper example_subscribed) (1, 7, 0) = Some 0"
proof -
  have h1: "\<not> connected (client example_fresh)"
    by (simp add: example_fresh_def)
  have h2: "connected (client example_subscribed)"
    and e: "emitted example_subscribed = []"
    and t: "trades (wrapper example_subscribed) (1, 7, 0) = Some 0"
    by (simp_all add: example_subscribed_def example_session_def)
  from disconnect_guarded [where s = "example_fresh :: (int \<times> int \<times> int) IB"
      and statusOf = example_statusOf]
    disconnect_guarded [where s = example_subscribed and statusOf = example_statusOf]
  show ?thesis using h1 h2 e t
    by (simp add: case_prod_unfold Wrapper_reset_def example_statusOf_def)
qed

subsection \<open>Startup synchronisation\<close>

lemmas flag_defs =
  POSITIONS_def ORDERS_OPEN_def ORDERS_COMPLETE_def ACCOUNT_UPDATES_def
  SUB_ACCOUNT_UPDATES_def EXECUTIONS_def StartupFetchNONE_def StartupFetchALL_def

lemmas env_defs =
  example_env_def env_open_orders_late_def env_open_orders_late_socket_lost_def
  env_download_fails_def

text \<open>What sending and logging leave alone.\<close>

lemma send_all_fields [simp]:
  "logged (send_all ms s) = logged s"
  "emitted (send_all ms s) = emitted s"
  "wrapper (send_all ms s) = wrapper s"
  "MaxSyncedSubAccounts (send_all ms s) = MaxSyncedSubAccounts s"
  "connected (client (send_all ms s)) = connected (client s)"
  "ready (client (send_all ms s)) = ready (client s)"
  by (induction ms arbitrary: s) (simp_all add: send_def)

lemma log_errors_fields [simp]:
  "logged (log_errors msgs s) = logged s @ map ErrorMsg msgs"
  "emitted (log_errors msgs s) = emitted s"
  "wrapper (log_errors msgs s) = wrapper s"
  "MaxSyncedSubAccounts (log_errors msgs s) = MaxSyncedSubAccounts s"
  "client (log_errors msgs s) = client s"
  by (induction msgs arbitrary: s) (simp_all add: logger_error_def)

text \<open>The serial loop: what it leaves alone, what it logs, when it raises.\<close>

lemma sync_accounts_frame:
  "emitted (snd (snd (sync_accounts env accs errors s))) = emitted s
   \<and> wrapper (snd (snd (sync_accounts env accs errors s))) = wrapper s
   \<and> connected (client (snd (snd (sync_accounts env accs errors s)))) = connected (client s)
   \<and> ready (client (snd (snd (sync_accounts env accs errors s)))) = ready (client s)"
  by (induction accs arbitrary: errors s)
     (simp_all add: Let_def send_def logger_error_def split: outcome.splits)

lemma sync_accounts_errors:
  "fst (snd (sync_accounts env accs errors s)) = errors @ account_errors env accs"
  by (induction accs arbitrary: errors s)
     (simp_all add: Let_def split: outcome.splits)

lemma sync_accounts_logged:
  "logged (snd (snd (sync_accounts env accs errors s)))
     = logged s @ map ErrorMsg (account_errors env accs)"
  by (induction accs arbitrary: errors s)
     (simp_all add: Let_def send_def logger_error_def split: outcome.splits)

lemma account_errors_count:
  "count_list (account_errors env accs) ''open orders request timed out'' = 0"
  by (induction accs) (simp_all split: outcome.splits)

lemma sync_accounts_returns:
  "Raised \<notin> accountSync env ` set accs \<Longrightarrow> fst (sync_accounts env accs errors s) = None"
proof (induction accs arbitrary: errors s)
  case Nil
  show ?case by simp
next
  case (Cons acc accs)
  from Cons.prems have "accountSync env acc \<noteq> Raised"
    and "Raised \<notin> accountSync env ` set accs"
    by (auto simp: image_iff)
  with Cons.IH show ?case
    by (cases "accountSync env acc") (simp_all add: Let_def)
qed

text \<open>The three blocks of the synchronisation, and the steps as a whole.\<close>

lemma startup_gather_frame:
  "emitted (snd (startup_gather env cid readonly acct fetchFields s)) = emitted s
   \<and> wrapper (snd (startup_gather env cid readonly acct fetchFields s)) = wrapper s
   \<and> MaxSyncedSubAccounts (snd (startup_gather env cid readonly acct fetchFields s))
       = MaxSyncedSubAccounts s
   \<and> connected (client (snd (startup_gather env cid readonly acct fetchFields s)))
       = connected (client s)
   \<and> ready (client (snd (startup_gather env cid readonly acct fetchFields s)))
       = ready (client s)
   \<and> logged (snd (startup_gather env cid readonly acct fetchFields s))
       = logged s @ map ErrorMsg (fst (startup_gather env cid readonly acct fetchFields s))"
  by (simp add: startup_gather_def Let_def send_def)

lemma gather_errors_count:
  "\<not> readonly \<Longrightarrow> fetchFields AND ORDERS_OPEN \<noteq> 0 \<Longrightarrow> startup env ''open orders'' = TimedOut
   \<Longrightarrow> count_list (gather_errors env (map fst (startup_requests readonly fetchFields v a)))
         ''open orders request timed out'' = 1"
  by (simp add: startup_requests_def)

lemma startup_gather_count:
  "\<not> readonly \<Longrightarrow> fetchFields AND ORDERS_OPEN \<noteq> 0 \<Longrightarrow> startup env ''open orders'' = TimedOut
   \<Longrightarrow> count_list (fst (startup_gather env cid readonly acct fetchFields s))
         ''open orders request timed out'' = 1"
  by (simp add: startup_gather_def Let_def gather_errors_count)

lemma startup_accounts_frame:
  "emitted (snd (snd (startup_accounts env errors s))) = emitted s
   \<and> wrapper (snd (snd (startup_accounts env errors s))) = wrapper s
   \<and> connected (client (snd (snd (startup_accounts env errors s)))) = connected (client s)
   \<and> ready (client (snd (snd (startup_accounts env errors s)))) = ready (client s)"
  by (simp add: startup_accounts_def sync_accounts_frame)

lemma startup_accounts_logged:
  "logged s = L @ map ErrorMsg errors \<Longrightarrow>
   logged (snd (snd (startup_accounts env errors s)))
     = L @ map ErrorMsg (fst (snd (startup_accounts env errors s)))"
  by (simp add: startup_accounts_def sync_accounts_errors sync_accounts_logged)

lemma startup_accounts_count:
  "count_list (fst (snd (startup_accounts env errors s))) ''open orders request timed out''
     = count_list errors ''open orders request timed out''"
  by (simp add: startup_accounts_def sync_accounts_errors account_errors_count)

lemma startup_accounts_returns:
  "no_request_raises env \<Longrightarrow> fst (startup_accounts env errors s) = None"
  by (simp add: startup_accounts_def no_request_raises_def sync_accounts_returns)

lemma startup_executions_frame:
  "emitted (snd (snd (startup_executions env fetchFields errors s))) = emitted s
   \<and> wrapper (snd (snd (startup_executions env fetchFields errors s))) = wrapper s
   \<and> connected (client (snd (snd (startup_executions env fetchFields errors s))))
       = connected (client s)
   \<and> ready (client (snd (snd (startup_executions env fetchFields errors s))))
       = ready (client s)"
  by (simp add: startup_executions_def step_defs Let_def split: outcome.splits)

lemma startup_executions_logged:
  "logged s = L @ map ErrorMsg errors \<Longrightarrow>
   logged (snd (snd (startup_executions env fetchFields errors s)))
     = L @ map ErrorMsg (fst (snd (startup_executions env fetchFields errors s)))"
  by (simp add: startup_executions_def step_defs Let_def split: outcome.splits)

lemma startup_executions_count:
  "count_list (fst (snd (startup_executions env fetchFields errors s)))
       ''open orders request timed out''
     = count_list errors ''open orders request timed out''"
  by (simp add: startup_executions_def step_defs Let_def split: outcome.splits)

lemma startup_executions_returns:
  "no_request_raises env \<Longrightarrow> fst (startup_executions env fetchFields errors s) = None"
  by (simp add: startup_executions_def no_request_raises_def step_defs Let_def
      split: outcome.splits)

lemma startup_sync_frame:
  "emitted (snd (snd (startup_sync env cid readonly acct fetchFields s))) = emitted s
   \<and> wrapper (snd (snd (startup_sync env cid readonly acct fetchFields s))) = wrapper s
   \<and> connected (client (snd (snd (startup_sync env cid readonly acct fetchFields s))))
       = connected (client s)
   \<and> ready (client (snd (snd (startup_sync env cid readonly acct fetchFields s))))
       = ready (client s)"
  by (simp add: startup_sync_def Let_def case_prod_unfold startup_gather_frame startup_accounts_frame
      startup_executions_frame split: option.splits)

lemma startup_sync_logged:
  "logged (snd (snd (startup_sync env cid readonly acct fetchFields s)))
     = logged s @ map ErrorMsg (fst (snd (startup_sync env cid readonly acct fetchFields s)))"
proof -
  let ?g = "startup_gather env cid readonly acct fetchFields s"
  let ?a = "startup_accounts env (fst ?g) (snd ?g)"
  have g: "logged (snd ?g) = logged s @ map ErrorMsg (fst ?g)"
    by (simp add: startup_gather_frame)
  have a: "logged (snd (snd ?a)) = logged s @ map ErrorMsg (fst (snd ?a))"
    by (rule startup_accounts_logged [OF g])
  show ?thesis
    by (simp add: startup_sync_def Let_def case_prod_unfold a startup_executions_logged [OF a]
        split: option.splits)
qed

lemma startup_sync_returns:
  "no_request_raises env \<Longrightarrow> fst (startup_sync env cid readonly acct fetchFields s) = None"
  by (simp add: startup_sync_def Let_def case_prod_unfold startup_accounts_returns
      startup_executions_returns split: option.splits)

lemma startup_sync_count:
  "\<not> readonly \<Longrightarrow> fetchFields AND ORDERS_OPEN \<noteq> 0 \<Longrightarrow> startup env ''open orders'' = TimedOut
   \<Longrightarrow> count_list (fst (snd (startup_sync env cid readonly acct fetchFields s)))
         ''open orders request timed out'' = 1"
  by (simp add: startup_sync_def Let_def case_prod_unfold startup_gather_count startup_accounts_count
      startup_executions_count split: option.splits)

text \<open>The body of the \<open>try\<close> statement once the connection is established.\<close>

lemma socket_state_fields [simp]:
  "emitted (socket_state env s)
     = (if aliveAtEnd env then emitted s else emitted s @ [disconnectedEvent])"
  "wrapper (socket_state env s) = (if aliveAtEnd env then wrapper s else Wrapper_reset)"
  "logged (socket_state env s) = logged s"
  "connected (client (socket_state env s)) = (aliveAtEnd env \<and> connected (client s))"
  "ready (client (socket_state env s)) = (aliveAtEnd env \<and> ready (client s))"
  by (simp_all add: socket_state_def socket_lost_def client_disconnect_def emit_def)

lemma connect_body_connected:
  assumes "connectOk env"
  shows "connect_body env cid readonly acct raiseSyncErrors fetchFields s =
     (let s1 = s\<lparr>client := (client s)\<lparr>connected := True, ready := True\<rparr>\<rparr>;
          p = startup_sync env cid readonly acct fetchFields s1;
          s3 = socket_state env (snd (snd p))
      in case fst p of
           Some e \<Rightarrow> (Inl e, s3)
         | None \<Rightarrow>
             (if raiseSyncErrors \<and> fst (snd p) \<noteq> [] then (Inl (ConnectionError_sync (fst (snd p))), s3)
              else if \<not> aliveAtEnd env then (Inl ConnectionError_broken, s3)
              else (Inr (), emit connectedEvent s3)))"
  using assms
  by (simp add: connect_body_def client_connectAsync_def Let_def case_prod_unfold
      startup_sync_frame split: option.splits)

lemma sync_errors_connected:
  "connectOk env \<Longrightarrow>
   sync_errors env cid readonly acct fetchFields s =
     fst (snd (startup_sync env cid readonly acct fetchFields
       (s\<lparr>wrapper := (wrapper s)\<lparr>wrapper_clientId := cid\<rparr>,
          client := (client s)\<lparr>connected := True, ready := True\<rparr>\<rparr>)))"
  by (simp add: sync_errors_def client_connectAsync_def)

text \<open>
  C5, as the code has it. With no startup flag at all (\<open>StartupFetchNONE\<close>, so without
  \<open>SUB_ACCOUNT_UPDATES\<close>) and one managed account, which is within the ceiling of 50,
  \<open>connectAsync\<close> still runs the per-account loop: the account-updates request for the
  account DU1 is sent, after the positions request.
\<close>

theorem connectAsync_ignores_SUB_ACCOUNT_UPDATES:
  "StartupFetchNONE AND SUB_ACCOUNT_UPDATES = 0
   \<and> int (length (getAccounts example_env)) \<le> MaxSyncedSubAccounts example_fresh
   \<and> fst (connectAsync example_statusOf example_env 1 False '''' False StartupFetchNONE
            example_fresh) = Inr ()
   \<and> sent (client (snd (connectAsync example_statusOf example_env 1 False '''' False
            StartupFetchNONE example_fresh)))
       = [ReqPositionsMsg, ReqAccountUpdatesMsg True ''DU1'']"
  by (simp add: connectAsync_def connect_body_def client_connectAsync_def startup_sync_def
      startup_gather_def startup_accounts_def startup_executions_def startup_requests_def
      socket_state_def step_defs Let_def flag_defs example_env_def example_fresh_def)

text \<open>
  C6, as stated, fails: the open-orders request times out, the account-updates request
  returns, \<open>raiseSyncErrors\<close> is false, and the socket is lost before the final check.
  The connect attempt raises and \<open>connectedEvent\<close> is not emitted.
\<close>

theorem connectAsync_open_orders_timeout_counterexample:
  "startup env_open_orders_late_socket_lost ''open orders'' = TimedOut
   \<and> startup env_open_orders_late_socket_lost ''account updates'' = Returned
   \<and> fst (connectAsync example_statusOf env_open_orders_late_socket_lost 1 False '''' False
            StartupFetchALL example_fresh) = Inl ConnectionError_broken
   \<and> connectedEvent \<notin> set (emitted (snd (connectAsync example_statusOf
            env_open_orders_late_socket_lost 1 False '''' False StartupFetchALL example_fresh)))"
  by (simp add: connectAsync_def connect_body_def client_connectAsync_def startup_sync_def
      startup_gather_def startup_accounts_def startup_executions_def startup_requests_def
      socket_state_def socket_lost_def client_disconnect_def disconnect_def step_defs Let_def
      flag_defs env_defs example_fresh_def)

text \<open>
  C6, amended. When the connection is established, the open-orders request is issued
  (not read-only, flag \<open>ORDERS_OPEN\<close>) and times out, \<open>raiseSyncErrors\<close> is false, no
  request of the serial steps raises another exception and the socket is still ready at
  the final check, \<open>connectAsync\<close> returns normally and emits \<open>connectedEvent\<close>; the
  messages logged are the collected ones, and \<^verbatim>\<open>open orders request timed out\<close> is
  among them exactly once.
\<close>

theorem connectAsync_open_orders_timeout:
  assumes "connectOk env" and "aliveAtEnd env" and "no_request_raises env"
    and "fetchFields AND ORDERS_OPEN \<noteq> 0" and "startup env ''open orders'' = TimedOut"
  shows "case connectAsync statusOf env cid False acct False fetchFields s of
      (r, s') \<Rightarrow>
          r = Inr ()
        \<and> emitted s' = emitted s @ [connectedEvent]
        \<and> connected (client s') \<and> ready (client s')
        \<and> logged s' = logged s @ map ErrorMsg (sync_errors env cid False acct fetchFields s)
        \<and> count_list (sync_errors env cid False acct fetchFields s)
             ''open orders request timed out'' = 1"
proof -
  let ?s1 = "s\<lparr>wrapper := (wrapper s)\<lparr>wrapper_clientId := cid\<rparr>,
               client := (client s)\<lparr>connected := True, ready := True\<rparr>\<rparr>"
  let ?p = "startup_sync env cid False acct fetchFields ?s1"
  have E: "sync_errors env cid False acct fetchFields s = fst (snd ?p)"
    using assms(1) by (rule sync_errors_connected)
  have r: "fst ?p = None"
    using assms(3) by (rule startup_sync_returns)
  have fr: "emitted (snd (snd ?p)) = emitted s" "connected (client (snd (snd ?p)))"
    "ready (client (snd (snd ?p)))"
    by (simp_all add: startup_sync_frame)
  have lg: "logged (snd (snd ?p)) = logged s @ map ErrorMsg (fst (snd ?p))"
    by (simp add: startup_sync_logged)
  have cnt: "count_list (fst (snd ?p)) ''open orders request timed out'' = 1"
    using assms(4,5) by (simp add: startup_sync_count)
  show ?thesis
    using assms(2) r fr lg cnt
    by (simp add: connectAsync_def connect_body_connected [OF assms(1)] Let_def E emit_def)
qed

theorem connectAsync_open_orders_timeout_witness:
  "connectOk env_open_orders_late \<and> aliveAtEnd env_open_orders_late
   \<and> no_request_raises env_open_orders_late
   \<and> StartupFetchALL AND ORDERS_OPEN \<noteq> 0
   \<and> startup env_open_orders_late ''open orders'' = TimedOut
   \<and> fst (connectAsync example_statusOf env_open_orders_late 1 False '''' False StartupFetchALL
            example_fresh) = Inr ()
   \<and> emitted (snd (connectAsync example_statusOf env_open_orders_late 1 False '''' False
            StartupFetchALL example_fresh)) = [connectedEvent]
   \<and> count_list (sync_errors env_open_orders_late 1 False '''' StartupFetchALL example_fresh)
        ''open orders request timed out'' = 1"
proof -
  have h: "connectOk env_open_orders_late" "aliveAtEnd env_open_orders_late"
    "no_request_raises env_open_orders_late" "StartupFetchALL AND ORDERS_OPEN \<noteq> 0"
    "startup env_open_orders_late ''open orders'' = TimedOut"
    by (simp_all add: env_defs no_request_raises_def flag_defs)
  have e: "emitted example_fresh = []"
    by (simp add: example_fresh_def)
  from connectAsync_open_orders_timeout [OF h, where statusOf = example_statusOf and cid = 1
      and acct = "[]" and s = example_fresh]
  show ?thesis using h e by (simp add: case_prod_unfold)
qed




end
